theory Spec2Isabelle
  imports Main "HOL-Library.AList"
begin

section \<open>The newsletter SQS processor\<close>

text \<open>
  A shallow embedding of \<^verbatim>\<open>newsletter_sqs_processor_lambda.py\<close>: the Lambda that
  consumes subscribe and unsubscribe messages from the operations queue and applies them
  to the DynamoDB subscribers table.
\<close>

subsection \<open>Data\<close>

text \<open>
  A DynamoDB attribute value as the processor writes and reads it: a string, a number,
  or NULL (what boto3 stores for Python's \<^verbatim>\<open>None\<close>).
\<close>

datatype attr = Str string | Num int | Null

text \<open>
  An item is a Python \<^verbatim>\<open>dict[str, Any]\<close>: an association list, looked up with
  \<^const>\<open>map_of\<close>. The empty dict is the empty list (falsy in Python).
\<close>

type_synonym item = "(string \<times> attr) list"

text \<open>
  What the handler can catch. \<^verbatim>\<open>ValidationError\<close> is pydantic's; every other
  exception (a boto3 client error, a JSON decode error, a \<^verbatim>\<open>KeyError\<close>, a
  \<^verbatim>\<open>TypeError\<close>) is an \<^verbatim>\<open>Exception\<close>. The string is \<^verbatim>\<open>str(e)\<close>.
\<close>

datatype exn = ValidationError string | Exception string

text \<open>The pydantic model \<^verbatim>\<open>OperationMessage\<close>.\<close>

record OperationMessage =
  operation :: string
  email :: string
  name :: "string option"
  ip_address :: string
  user_agent :: string
  timestamp :: int

text \<open>The write calls the processor makes on the table, with their arguments.\<close>

datatype store_call =
  PutItem item
| UpdateItem attr "(string \<times> attr) list"

text \<open>
  What one message's processing reads from outside the program: the clock
  (\<^verbatim>\<open>int(datetime.utcnow().timestamp())\<close>), the identifier generator
  (\<^verbatim>\<open>str(uuid4())\<close>), and whether the table's query or write call raises (with the
  exception's text). Each is read at most once per message.
\<close>

record env =
  utcnow :: int
  uuid4 :: string
  query_fault :: "string option"
  write_fault :: "string option"

text \<open>
  The state the processor acts on: the contents of the subscribers table (primary key
  \<^verbatim>\<open>id\<close>; the list order is the order in which the email index returns items) and the
  log of write calls made on it so far.
\<close>

record world =
  table :: "item list"
  writes :: "store_call list"

text \<open>An SQS record as the handler reads it: both fields are read with \<^verbatim>\<open>.get\<close>.\<close>

record sqs_record =
  receiptHandle :: "string option"
  body :: "string option"

record event =
  Records :: "sqs_record list option"

record failure =
  receipt_handle :: "string option"
  error :: string

record response =
  statusCode :: int
  processed :: int
  failed :: int
  failed_messages :: "failure list"

subsection \<open>The table\<close>

text \<open>
  \<^verbatim>\<open>subscribers_table.query(IndexName='email-index', KeyConditionExpression=Key('email').eq(email))\<close>:
  the items whose \<^verbatim>\<open>email\<close> attribute is that string.
\<close>

definition dynamo_query :: "item list \<Rightarrow> string \<Rightarrow> item list" where
  "dynamo_query tbl e = filter (\<lambda>it. map_of it ''email'' = Some (Str e)) tbl"

text \<open>The \<^verbatim>\<open>SET\<close> clauses of an update expression, applied left to right.\<close>

definition set_attrs :: "(string \<times> attr) list \<Rightarrow> item \<Rightarrow> item" where
  "set_attrs sets it = fold (\<lambda>kv. AList.update (fst kv) (snd kv)) sets it"

text \<open>
  DynamoDB's \<^verbatim>\<open>UpdateItem\<close> with a \<^verbatim>\<open>SET\<close> expression and no condition: the item
  with that key gets the attributes; when there is none, an item with the key and the
  attributes is added.
\<close>

definition dynamo_update :: "attr \<Rightarrow> (string \<times> attr) list \<Rightarrow> item list \<Rightarrow> item list" where
  "dynamo_update key sets tbl =
     (if Some key \<in> set (map (\<lambda>it. map_of it ''id'') tbl)
      then map (\<lambda>it. if map_of it ''id'' = Some key then set_attrs sets it else it) tbl
      else tbl @ [set_attrs sets [(''id'', key)]])"

text \<open>DynamoDB's \<^verbatim>\<open>PutItem\<close>: the item replaces any item with the same key.\<close>

definition dynamo_put :: "item \<Rightarrow> item list \<Rightarrow> item list" where
  "dynamo_put new tbl = filter (\<lambda>it. map_of it ''id'' \<noteq> map_of new ''id'') tbl @ [new]"

definition update_item ::
  "env \<Rightarrow> attr \<Rightarrow> (string \<times> attr) list \<Rightarrow> world \<Rightarrow> (exn + unit) \<times> world" where
  "update_item ev key sets w =
     (let w1 = w\<lparr>writes := writes w @ [UpdateItem key sets]\<rparr> in
      case write_fault ev of
        Some msg \<Rightarrow> (Inl (Exception msg), w1)
      | None \<Rightarrow> (Inr (), w1\<lparr>table := dynamo_update key sets (table w)\<rparr>))"

definition put_item :: "env \<Rightarrow> item \<Rightarrow> world \<Rightarrow> (exn + unit) \<times> world" where
  "put_item ev new w =
     (let w1 = w\<lparr>writes := writes w @ [PutItem new]\<rparr> in
      case write_fault ev of
        Some msg \<Rightarrow> (Inl (Exception msg), w1)
      | None \<Rightarrow> (Inr (), w1\<lparr>table := dynamo_put new (table w)\<rparr>))"

subsection \<open>The operations\<close>

text \<open>
  \<^verbatim>\<open>query_subscriber_by_email\<close>: \<^verbatim>\<open>items[0] if items else None\<close>; an exception of the
  query is logged and raised again.
\<close>

definition query_subscriber_by_email :: "env \<Rightarrow> string \<Rightarrow> world \<Rightarrow> exn + item option" where
  "query_subscriber_by_email ev e w =
     (case query_fault ev of
        Some msg \<Rightarrow> Inl (Exception msg)
      | None \<Rightarrow>
          (case dynamo_query (table w) e of
             [] \<Rightarrow> Inr None
           | it # rest \<Rightarrow> Inr (Some it)))"

text \<open>\<^verbatim>\<open>existing_subscriber.get('status', 'inactive')\<close>.\<close>

definition current_status :: "item \<Rightarrow> attr" where
  "current_status it = (case map_of it ''status'' of None \<Rightarrow> Str ''inactive'' | Some s \<Rightarrow> s)"

text \<open>The dict built at lines 138 to 147.\<close>

definition new_subscriber :: "env \<Rightarrow> OperationMessage \<Rightarrow> item" where
  "new_subscriber ev message =
     [(''id'', Str (uuid4 ev)),
      (''email'', Str (email message)),
      (''name'', (case name message of None \<Rightarrow> Null | Some n \<Rightarrow> Str n)),
      (''status'', Str ''active''),
      (''subscribed_at'', Num (utcnow ev)),
      (''updated_at'', Num (utcnow ev)),
      (''ip_address'', Str (ip_address message)),
      (''user_agent'', Str (user_agent message))]"

text \<open>
  \<^verbatim>\<open>process_subscribe_operation\<close>. \<^verbatim>\<open>if existing_subscriber:\<close> is false for
  \<^verbatim>\<open>None\<close> and for an empty dict; \<^verbatim>\<open>existing_subscriber['id']\<close> raises
  \<^verbatim>\<open>KeyError\<close> when the key is missing (\<^verbatim>\<open>str(KeyError('id'))\<close> is the key in
  single quotes).
\<close>

definition process_subscribe_operation ::
  "env \<Rightarrow> OperationMessage \<Rightarrow> world \<Rightarrow> (exn + unit) \<times> world" where
  "process_subscribe_operation ev message w =
     (let current_timestamp = utcnow ev in
      case query_subscriber_by_email ev (email message) w of
        Inl x \<Rightarrow> (Inl x, w)
      | Inr existing_subscriber \<Rightarrow>
          (case existing_subscriber of
             None \<Rightarrow> put_item ev (new_subscriber ev message) w
           | Some it \<Rightarrow>
               if it = [] then put_item ev (new_subscriber ev message) w
               else
                 (case map_of it ''id'' of
                    None \<Rightarrow> (Inl (Exception (CHR 0x27 # ''id'' @ [CHR 0x27])), w)
                  | Some subscriber_id \<Rightarrow>
                      if current_status it = Str ''inactive''
                      then update_item ev subscriber_id
                             [(''status'', Str ''active''), (''updated_at'', Num current_timestamp)] w
                      else update_item ev subscriber_id
                             [(''updated_at'', Num current_timestamp)] w)))"

text \<open>\<^verbatim>\<open>process_unsubscribe_operation\<close>: a found subscriber is set inactive, whatever
  its status was; when none is found the message is logged and skipped.\<close>

definition process_unsubscribe_operation ::
  "env \<Rightarrow> OperationMessage \<Rightarrow> world \<Rightarrow> (exn + unit) \<times> world" where
  "process_unsubscribe_operation ev message w =
     (let current_timestamp = utcnow ev in
      case query_subscriber_by_email ev (email message) w of
        Inl x \<Rightarrow> (Inl x, w)
      | Inr existing_subscriber \<Rightarrow>
          (case existing_subscriber of
             None \<Rightarrow> (Inr (), w)
           | Some it \<Rightarrow>
               if it = [] then (Inr (), w)
               else
                 (case map_of it ''id'' of
                    None \<Rightarrow> (Inl (Exception (CHR 0x27 # ''id'' @ [CHR 0x27])), w)
                  | Some subscriber_id \<Rightarrow>
                      update_item ev subscriber_id
                        [(''status'', Str ''inactive''), (''updated_at'', Num current_timestamp)] w)))"

subsection \<open>The handler\<close>

text \<open>
  Lines 219 and 220, \<^verbatim>\<open>json.loads(message_body)\<close> followed by
  \<^verbatim>\<open>OperationMessage(**message_data)\<close>, are the work of the json and pydantic
  libraries: they are a parameter \<open>decode\<close>, which gives the validated message or the
  exception raised. \<^verbatim>\<open>json.loads(None)\<close>, for a record without a body, raises
  \<^verbatim>\<open>TypeError\<close>.
\<close>

type_synonym decoder = "string \<Rightarrow> exn + OperationMessage"

text \<open>
  The body of the \<^verbatim>\<open>try\<close> block for one record. It raises (\<open>Inl\<close>), or ends
  with the message processed (\<open>Inr True\<close>), or reaches \<^verbatim>\<open>continue\<close> in the branch
  of an unknown operation (\<open>Inr False\<close>).
\<close>

definition try_block :: "decoder \<Rightarrow> env \<Rightarrow> string option \<Rightarrow> world \<Rightarrow> (exn + bool) \<times> world" where
  "try_block decode ev message_body w =
     (case (case message_body of
              None \<Rightarrow> Inl (Exception ''the JSON object must be str, bytes or bytearray, not NoneType'')
            | Some s \<Rightarrow> decode s) of
        Inl x \<Rightarrow> (Inl x, w)
      | Inr operation_message \<Rightarrow>
          if operation operation_message = ''subscribe'' then
            (case process_subscribe_operation ev operation_message w of
               (Inl x, w') \<Rightarrow> (Inl x, w')
             | (Inr u, w') \<Rightarrow> (Inr True, w'))
          else if operation operation_message = ''unsubscribe'' then
            (case process_unsubscribe_operation ev operation_message w of
               (Inl x, w') \<Rightarrow> (Inl x, w')
             | (Inr u, w') \<Rightarrow> (Inr True, w'))
          else (Inr False, w))"

text \<open>The three local variables of the handler's loop.\<close>

record counters =
  processed_count :: int
  failed_count :: int
  failed_msgs :: "failure list"

text \<open>One iteration of the loop: the \<^verbatim>\<open>try\<close> block and its two handlers.\<close>

definition handle_record ::
  "decoder \<Rightarrow> env \<Rightarrow> sqs_record \<Rightarrow> counters \<times> world \<Rightarrow> counters \<times> world" where
  "handle_record decode ev record cw =
     (let c = fst cw; w = snd cw;
          receipt_handle = receiptHandle record;
          message_body = body record in
      case try_block decode ev message_body w of
        (Inr True, w') \<Rightarrow> (c\<lparr>processed_count := processed_count c + 1\<rparr>, w')
      | (Inr False, w') \<Rightarrow> (c\<lparr>failed_count := failed_count c + 1\<rparr>, w')
      | (Inl (ValidationError msg), w') \<Rightarrow>
          (c\<lparr>failed_count := failed_count c + 1,
             failed_msgs := failed_msgs c @ [\<lparr>receipt_handle = receipt_handle, error = msg\<rparr>]\<rparr>, w')
      | (Inl (Exception msg), w') \<Rightarrow>
          (c\<lparr>failed_count := failed_count c + 1,
             failed_msgs := failed_msgs c @ [\<lparr>receipt_handle = receipt_handle, error = msg\<rparr>]\<rparr>, w'))"

text \<open>
  The \<^verbatim>\<open>for\<close> loop over the records; the record at position \<open>i\<close> of the batch is
  processed in the environment \<open>envs i\<close>.
\<close>

fun records_loop ::
  "decoder \<Rightarrow> (nat \<Rightarrow> env) \<Rightarrow> nat \<Rightarrow> sqs_record list \<Rightarrow> counters \<times> world \<Rightarrow> counters \<times> world" where
  "records_loop decode envs i [] cw = cw"
| "records_loop decode envs i (r # rs) cw =
     records_loop decode envs (Suc i) rs (handle_record decode (envs i) r cw)"

text \<open>\<^verbatim>\<open>event.get('Records', [])\<close>.\<close>

definition event_records :: "event \<Rightarrow> sqs_record list" where
  "event_records ev = (case Records ev of None \<Rightarrow> [] | Some rs \<Rightarrow> rs)"

text \<open>
  \<^verbatim>\<open>lambda_handler\<close>. Its result is \<open>Inr\<close> of the response when it returns and
  \<open>Inl\<close> of the exception when it raises; no statement outside the \<^verbatim>\<open>try\<close> block
  raises on an event of this type.
\<close>

definition lambda_handler ::
  "decoder \<Rightarrow> (nat \<Rightarrow> env) \<Rightarrow> event \<Rightarrow> world \<Rightarrow> (exn + response) \<times> world" where
  "lambda_handler decode envs ev w =
     (let init = \<lparr>processed_count = 0, failed_count = 0, failed_msgs = []\<rparr>;
          cw = records_loop decode envs 0 (event_records ev) (init, w)
      in (Inr \<lparr>statusCode = 200,
               processed = processed_count (fst cw),
               failed = failed_count (fst cw),
               failed_messages = failed_msgs (fst cw)\<rparr>, snd cw))"

subsection \<open>Notions used by the properties\<close>

text \<open>\<^verbatim>\<open>id\<close> is the table's primary key: no two items of a table share it.\<close>

definition primary_key_unique :: "item list \<Rightarrow> bool" where
  "primary_key_unique tbl = distinct (map (\<lambda>it. map_of it ''id'') tbl)"

text \<open>
  Delivering the same subscribe message \<open>n\<close> times in a row, the deliveries numbered
  from \<open>i\<close>: each is one call of \<^const>\<open>process_subscribe_operation\<close>, in its own
  environment, on the state the previous one left; an exception ends the run.
\<close>

fun replay_subscribe ::
  "(nat \<Rightarrow> env) \<Rightarrow> nat \<Rightarrow> OperationMessage \<Rightarrow> nat \<Rightarrow> world \<Rightarrow> (exn + unit) \<times> world" where
  "replay_subscribe envs i m 0 w = (Inr (), w)"
| "replay_subscribe envs i m (Suc n) w =
     (case process_subscribe_operation (envs i) m w of
        (Inl x, w') \<Rightarrow> (Inl x, w')
      | (Inr u, w') \<Rightarrow> replay_subscribe envs (Suc i) m n w')"

text \<open>
  A decoder and environments for the concrete scenarios. \<open>sample_decode\<close> gives, on
  each of the four bodies it lists, what \<^verbatim>\<open>json.loads\<close> and the pydantic model give
  there; it is used on no other body. On \<^verbatim>\<open>{not json\<close> the JSON library raises
  \<^verbatim>\<open>JSONDecodeError\<close> with the text below.
\<close>

definition sample_decode :: decoder where
  \<open>sample_decode s =
     (if s = ''{"operation": "subscribe", "email": "a@x.com", "name": "A", "ip_address": "1.1.1.1", "user_agent": "UA", "timestamp": 1000}''
      then Inr \<lparr>operation = ''subscribe'', email = ''a@x.com'', name = Some ''A'',
                ip_address = ''1.1.1.1'', user_agent = ''UA'', timestamp = 1000\<rparr>
      else if s = ''{"operation": "subscribe", "email": "b@x.com", "name": "B", "ip_address": "2.2.2.2", "user_agent": "UB", "timestamp": 2000}''
      then Inr \<lparr>operation = ''subscribe'', email = ''b@x.com'', name = Some ''B'',
                ip_address = ''2.2.2.2'', user_agent = ''UB'', timestamp = 2000\<rparr>
      else if s = ''{"operation": "delete", "email": "a@x.com", "name": null, "ip_address": "1.1.1.1", "user_agent": "UA", "timestamp": 1000}''
      then Inr \<lparr>operation = ''delete'', email = ''a@x.com'', name = None,
                ip_address = ''1.1.1.1'', user_agent = ''UA'', timestamp = 1000\<rparr>
      else Inl (Exception ''Expecting property name enclosed in double quotes: line 1 column 2 (char 1)''))\<close>

definition sample_envs :: "nat \<Rightarrow> env" where
  "sample_envs i =
     \<lparr>utcnow = 1700000000 + int i,
      uuid4 = (if i = 0 then ''0f8fad5b-d9cb-469f-a165-70867728950e''
               else if i = 1 then ''7c9e6679-7425-40de-944b-e07fc1f90ae7''
               else ''16fd2706-8baf-433b-82eb-8c7fada847da''),
      query_fault = None,
      write_fault = None\<rparr>"

section \<open>Properties of the operations\<close>

lemmas eval_defs = try_block_def sample_decode_def sample_envs_def process_subscribe_operation_def
  process_unsubscribe_operation_def query_subscriber_by_email_def dynamo_query_def put_item_def
  update_item_def dynamo_put_def dynamo_update_def new_subscriber_def current_status_def
  set_attrs_def Let_def

subsection \<open>The table and the branches of the operations\<close>

lemma map_of_set_attrs1 [simp]:
  "map_of (set_attrs [(k, v)] it) = (map_of it)(k \<mapsto> v)"
  by (simp add: set_attrs_def update_conv')

lemma map_of_set_attrs2 [simp]:
  "map_of (set_attrs [(k, v), (k', v')] it) = (map_of it)(k \<mapsto> v, k' \<mapsto> v')"
  by (simp add: set_attrs_def update_conv')

lemma dynamo_query_put_absent:
  assumes "dynamo_query tbl e = []" and "map_of new ''email'' = Some (Str e)"
  shows "dynamo_query (dynamo_put new tbl) e = [new]"
proof -
  from assms(1) have "\<forall>it \<in> set tbl. map_of it ''email'' \<noteq> Some (Str e)"
    by (simp add: dynamo_query_def filter_empty_conv)
  then have "filter (\<lambda>it. map_of it ''email'' = Some (Str e))
               (filter (\<lambda>it. map_of it ''id'' \<noteq> map_of new ''id'') tbl) = []"
    by (simp add: filter_empty_conv)
  with assms(2) show ?thesis
    by (simp add: dynamo_query_def dynamo_put_def)
qed

lemma dynamo_query_update:
  assumes "Some key \<in> set (map (\<lambda>it. map_of it ''id'') tbl)"
    and "\<And>it. map_of (set_attrs sets it) ''email'' = map_of it ''email''"
  shows "dynamo_query (dynamo_update key sets tbl) e
           = map (\<lambda>it. if map_of it ''id'' = Some key then set_attrs sets it else it) (dynamo_query tbl e)"
proof -
  have "filter (\<lambda>it. map_of it ''email'' = Some (Str e)) (map f xs)
          = map f (filter (\<lambda>it. map_of it ''email'' = Some (Str e)) xs)"
    if "\<And>it. map_of (f it) ''email'' = map_of it ''email''" for f :: "item \<Rightarrow> item" and xs
    using that by (induction xs) simp_all
  with assms show ?thesis
    by (simp add: dynamo_query_def dynamo_update_def)
qed

lemma query_mem:
  "dynamo_query tbl e = it # rest \<Longrightarrow> it \<in> set tbl \<and> map_of it ''email'' = Some (Str e)"
proof -
  assume "dynamo_query tbl e = it # rest"
  then have "it \<in> set (filter (\<lambda>it. map_of it ''email'' = Some (Str e)) tbl)"
    by (simp add: dynamo_query_def)
  then show ?thesis by simp
qed


lemma subscribe_absent:
  assumes "query_fault ev = None" and "dynamo_query (table w) (email m) = []"
  shows "process_subscribe_operation ev m w = put_item ev (new_subscriber ev m) w"
  using assms by (simp add: process_subscribe_operation_def query_subscriber_by_email_def)

lemma subscribe_found:
  assumes "query_fault ev = None" and "dynamo_query (table w) (email m) = it # rest"
    and "map_of it ''id'' = Some k"
  shows "process_subscribe_operation ev m w =
           update_item ev k
             (if current_status it = Str ''inactive''
              then [(''status'', Str ''active''), (''updated_at'', Num (utcnow ev))]
              else [(''updated_at'', Num (utcnow ev))]) w"
proof -
  from assms(3) have "it \<noteq> []" by auto
  with assms show ?thesis
    by (simp add: process_subscribe_operation_def query_subscriber_by_email_def)
qed

lemma unsubscribe_absent:
  assumes "dynamo_query (table w) (email m) = []"
  shows "snd (process_unsubscribe_operation ev m w) = w"
  using assms
  by (simp add: process_unsubscribe_operation_def query_subscriber_by_email_def split: option.splits)

lemma unsubscribe_found:
  assumes "query_fault ev = None" and "dynamo_query (table w) (email m) = it # rest"
    and "map_of it ''id'' = Some k"
  shows "process_unsubscribe_operation ev m w =
           update_item ev k [(''status'', Str ''inactive''), (''updated_at'', Num (utcnow ev))] w"
proof -
  from assms(3) have "it \<noteq> []" by auto
  with assms show ?thesis
    by (simp add: process_unsubscribe_operation_def query_subscriber_by_email_def)
qed

lemma update_item_ok:
  assumes "write_fault ev = None"
  shows "update_item ev k sets w =
           (Inr (), w\<lparr>writes := writes w @ [UpdateItem k sets], table := dynamo_update k sets (table w)\<rparr>)"
  using assms by (simp add: update_item_def)

lemma dynamo_update_unique:
  assumes "primary_key_unique tbl" and "it \<in> set tbl" and "map_of it ''id'' = Some k"
  shows "dynamo_update k sets tbl = map (\<lambda>x. if x = it then set_attrs sets it else x) tbl"
proof -
  have "inj_on (\<lambda>x. map_of x ''id'') (set tbl)"
    using assms(1) by (simp add: primary_key_unique_def distinct_map)
  then have "\<forall>x \<in> set tbl. (map_of x ''id'' = Some k) = (x = it)"
    using assms(2,3) by (auto simp: inj_on_def)
  then have "map (\<lambda>x. if map_of x ''id'' = Some k then set_attrs sets x else x) tbl
               = map (\<lambda>x. if x = it then set_attrs sets it else x) tbl"
    by (intro map_cong) auto
  moreover have "Some k \<in> set (map (\<lambda>it. map_of it ''id'') tbl)"
    using assms(2,3) by force
  ultimately show ?thesis
    by (simp add: dynamo_update_def)
qed

lemma put_item_ok:
  assumes "write_fault ev = None"
  shows "put_item ev new w =
           (Inr (), w\<lparr>writes := writes w @ [PutItem new], table := dynamo_put new (table w)\<rparr>)"
  using assms by (simp add: put_item_def)

lemma dynamo_put_fresh:
  assumes "map_of new ''id'' \<notin> set (map (\<lambda>it. map_of it ''id'') tbl)"
  shows "dynamo_put new tbl = tbl @ [new]"
proof -
  from assms have "\<forall>it \<in> set tbl. map_of it ''id'' \<noteq> map_of new ''id''"
    by (auto simp: image_iff)
  then have "filter (\<lambda>it. map_of it ''id'' \<noteq> map_of new ''id'') tbl = tbl"
    by (simp add: filter_id_conv)
  then show ?thesis by (simp add: dynamo_put_def)
qed

lemma query_distinct:
  assumes "primary_key_unique tbl" and "dynamo_query tbl e = it # others"
  shows "it \<notin> set others"
proof -
  from assms(1) have "distinct tbl"
    by (simp add: primary_key_unique_def distinct_map)
  then have "distinct (dynamo_query tbl e)"
    by (simp add: dynamo_query_def)
  with assms(2) show ?thesis by simp
qed

lemma new_subscriber_timestamp:
  "new_subscriber ev (m\<lparr>timestamp := t\<rparr>) = new_subscriber ev m"
  by (simp add: new_subscriber_def)

lemma subscribe_ignores_timestamp:
  "process_subscribe_operation ev (m\<lparr>timestamp := t\<rparr>) w = process_subscribe_operation ev m w"
  unfolding process_subscribe_operation_def new_subscriber_timestamp by simp

lemma unsubscribe_ignores_timestamp:
  "process_unsubscribe_operation ev (m\<lparr>timestamp := t\<rparr>) w = process_unsubscribe_operation ev m w"
  by (simp add: process_unsubscribe_operation_def)

lemma query_fault_raises:
  assumes "query_fault e = Some msg"
  shows "process_subscribe_operation e m w0 = (Inl (Exception msg), w0)"
    and "process_unsubscribe_operation e m w0 = (Inl (Exception msg), w0)"
  using assms
  by (simp_all add: process_subscribe_operation_def process_unsubscribe_operation_def
        query_subscriber_by_email_def)





subsection \<open>Subscribe\<close>

text \<open>
  Claim C3. A subscribe message whose email is on no item of the table, with an
  identifier that no item has yet and no failure of the table, makes one
  \<^verbatim>\<open>put_item\<close> call: the table gains exactly one item, with the generated id, the
  status \<^verbatim>\<open>active\<close>, \<^verbatim>\<open>subscribed_at\<close> and \<^verbatim>\<open>updated_at\<close> both the
  clock's reading, and the message's email, name, ip address and user agent.
\<close>

theorem subscribe_absent_creates_record:
  assumes "query_fault ev = None" and "write_fault ev = None"
    and "dynamo_query (table w) (email m) = []"
    and "Some (Str (uuid4 ev)) \<notin> set (map (\<lambda>it. map_of it ''id'') (table w))"
  shows "process_subscribe_operation ev m w =
           (Inr (),
            w\<lparr>writes := writes w @
                 [PutItem [(''id'', Str (uuid4 ev)), (''email'', Str (email m)),
                           (''name'', (case name m of None \<Rightarrow> Null | Some n \<Rightarrow> Str n)),
                           (''status'', Str ''active''),
                           (''subscribed_at'', Num (utcnow ev)), (''updated_at'', Num (utcnow ev)),
                           (''ip_address'', Str (ip_address m)), (''user_agent'', Str (user_agent m))]],
              table := table w @
                 [[(''id'', Str (uuid4 ev)), (''email'', Str (email m)),
                   (''name'', (case name m of None \<Rightarrow> Null | Some n \<Rightarrow> Str n)),
                   (''status'', Str ''active''),
                   (''subscribed_at'', Num (utcnow ev)), (''updated_at'', Num (utcnow ev)),
                   (''ip_address'', Str (ip_address m)), (''user_agent'', Str (user_agent m))]]\<rparr>)"
proof -
  have "map_of (new_subscriber ev m) ''id'' = Some (Str (uuid4 ev))"
    by (simp add: new_subscriber_def)
  with assms(4) have "dynamo_put (new_subscriber ev m) (table w) = table w @ [new_subscriber ev m]"
    by (simp add: dynamo_put_fresh)
  with assms(1-3) show ?thesis
    by (simp add: subscribe_absent put_item_ok new_subscriber_def)
qed

text \<open>The scenario of the specification: the first subscription of \<^verbatim>\<open>a@x.com\<close> on an empty table.\<close>

theorem subscribe_absent_creates_record_witness:
  "process_subscribe_operation
     \<lparr>utcnow = 1700000000, uuid4 = ''0f8fad5b-d9cb-469f-a165-70867728950e'',
      query_fault = None, write_fault = None\<rparr>
     \<lparr>operation = ''subscribe'', email = ''a@x.com'', name = Some ''A'',
      ip_address = ''1.1.1.1'', user_agent = ''UA'', timestamp = 1000\<rparr>
     \<lparr>table = [], writes = []\<rparr>
   = (Inr (),
      \<lparr>table =
         [[(''id'', Str ''0f8fad5b-d9cb-469f-a165-70867728950e''), (''email'', Str ''a@x.com''),
           (''name'', Str ''A''), (''status'', Str ''active''), (''subscribed_at'', Num 1700000000),
           (''updated_at'', Num 1700000000), (''ip_address'', Str ''1.1.1.1''), (''user_agent'', Str ''UA'')]],
       writes =
         [PutItem
           [(''id'', Str ''0f8fad5b-d9cb-469f-a165-70867728950e''), (''email'', Str ''a@x.com''),
            (''name'', Str ''A''), (''status'', Str ''active''), (''subscribed_at'', Num 1700000000),
            (''updated_at'', Num 1700000000), (''ip_address'', Str ''1.1.1.1''), (''user_agent'', Str ''UA'')]]\<rparr>)"
  (is "process_subscribe_operation ?ev ?m ?w = _")
proof -
  have h1: "query_fault ?ev = None" and h2: "write_fault ?ev = None"
    by simp_all
  have h3: "dynamo_query (table ?w) (email ?m) = []"
    by (simp add: dynamo_query_def)
  have h4: "Some (Str (uuid4 ?ev)) \<notin> set (map (\<lambda>it. map_of it ''id'') (table ?w))"
    by simp
  from subscribe_absent_creates_record [OF h1 h2 h3 h4] show ?thesis
    by simp
qed

text \<open>
  Claim C4. A subscribe message whose email resolves to an item whose status reads
  \<^verbatim>\<open>inactive\<close> makes one \<^verbatim>\<open>update_item\<close> call on that item's id: the item is
  replaced in place by itself with \<^verbatim>\<open>status\<close> set to \<^verbatim>\<open>active\<close> and
  \<^verbatim>\<open>updated_at\<close> set to the clock's reading, every other attribute (the id and
  \<^verbatim>\<open>subscribed_at\<close> among them) as it was; no item is added and every other item is
  unchanged.
\<close>

theorem subscribe_inactive_reactivates:
  assumes "query_fault ev = None" and "write_fault ev = None"
    and "primary_key_unique (table w)"
    and "dynamo_query (table w) (email m) = it # rest"
    and "map_of it ''id'' = Some k"
    and "current_status it = Str ''inactive''"
  shows "process_subscribe_operation ev m w =
           (Inr (),
            w\<lparr>writes := writes w @
                 [UpdateItem k [(''status'', Str ''active''), (''updated_at'', Num (utcnow ev))]],
              table := map (\<lambda>x. if x = it
                                then set_attrs [(''status'', Str ''active''), (''updated_at'', Num (utcnow ev))] it
                                else x) (table w)\<rparr>)
         \<and> map_of (set_attrs [(''status'', Str ''active''), (''updated_at'', Num (utcnow ev))] it)
             = (map_of it)(''status'' \<mapsto> Str ''active'', ''updated_at'' \<mapsto> Num (utcnow ev))"
proof -
  let ?sets = "[(''status'', Str ''active''), (''updated_at'', Num (utcnow ev))]"
  from assms(4) have mem: "it \<in> set (table w)" by (simp add: query_mem)
  from assms(3) mem assms(5) have "dynamo_update k ?sets (table w)
                         = map (\<lambda>x. if x = it then set_attrs ?sets it else x) (table w)"
    by (rule dynamo_update_unique)
  with assms(1,2,4,5,6) have "process_subscribe_operation ev m w =
           (Inr (), w\<lparr>writes := writes w @ [UpdateItem k ?sets],
              table := map (\<lambda>x. if x = it then set_attrs ?sets it else x) (table w)\<rparr>)"
    by (simp add: subscribe_found update_item_ok)
  then show ?thesis by simp
qed

text \<open>An inactive subscriber beside another one; the message carries another name and address, which are not stored.\<close>

theorem subscribe_inactive_reactivates_witness:
  "process_subscribe_operation
     \<lparr>utcnow = 1700000500, uuid4 = ''7c9e6679-7425-40de-944b-e07fc1f90ae7'',
      query_fault = None, write_fault = None\<rparr>
     \<lparr>operation = ''subscribe'', email = ''a@x.com'', name = Some ''A2'',
      ip_address = ''9.9.9.9'', user_agent = ''UA2'', timestamp = 1000\<rparr>
     \<lparr>table =
        [[(''id'', Str ''0f8fad5b-d9cb-469f-a165-70867728950e''), (''email'', Str ''a@x.com''),
          (''name'', Str ''A''), (''status'', Str ''inactive''), (''subscribed_at'', Num 1700000000),
          (''updated_at'', Num 1700000100), (''ip_address'', Str ''1.1.1.1''), (''user_agent'', Str ''UA'')],
         [(''id'', Str ''16fd2706-8baf-433b-82eb-8c7fada847da''), (''email'', Str ''b@x.com''),
          (''name'', Str ''B''), (''status'', Str ''active''), (''subscribed_at'', Num 1700000002),
          (''updated_at'', Num 1700000002), (''ip_address'', Str ''2.2.2.2''), (''user_agent'', Str ''UB'')]],
      writes = []\<rparr>
   = (Inr (),
      \<lparr>table =
        [[(''id'', Str ''0f8fad5b-d9cb-469f-a165-70867728950e''), (''email'', Str ''a@x.com''),
          (''name'', Str ''A''), (''status'', Str ''active''), (''subscribed_at'', Num 1700000000),
          (''updated_at'', Num 1700000500), (''ip_address'', Str ''1.1.1.1''), (''user_agent'', Str ''UA'')],
         [(''id'', Str ''16fd2706-8baf-433b-82eb-8c7fada847da''), (''email'', Str ''b@x.com''),
          (''name'', Str ''B''), (''status'', Str ''active''), (''subscribed_at'', Num 1700000002),
          (''updated_at'', Num 1700000002), (''ip_address'', Str ''2.2.2.2''), (''user_agent'', Str ''UB'')]],
      writes =
        [UpdateItem (Str ''0f8fad5b-d9cb-469f-a165-70867728950e'')
           [(''status'', Str ''active''), (''updated_at'', Num 1700000500)]]\<rparr>)"
  (is "process_subscribe_operation ?ev ?m \<lparr>table = [?a, ?b], writes = []\<rparr> = _")
proof -
  let ?w = "\<lparr>table = [?a, ?b], writes = []\<rparr>"
  have h1: "query_fault ?ev = None" and h2: "write_fault ?ev = None"
    by simp_all
  have h3: "primary_key_unique (table ?w)"
    by (simp add: primary_key_unique_def)
  have h4: "dynamo_query (table ?w) (email ?m) = ?a # []"
    by (simp add: dynamo_query_def)
  have h5: "map_of ?a ''id'' = Some (Str ''0f8fad5b-d9cb-469f-a165-70867728950e'')"
    by simp
  have h6: "current_status ?a = Str ''inactive''"
    by (simp add: current_status_def)
  from subscribe_inactive_reactivates [OF h1 h2 h3 h4 h5 h6] show ?thesis
    by (simp add: set_attrs_def)
qed

text \<open>
  Claim C5. A subscribe message whose email resolves to an item with status
  \<^verbatim>\<open>active\<close> makes one \<^verbatim>\<open>update_item\<close> call, which sets \<^verbatim>\<open>updated_at\<close>
  to the clock's reading and nothing else: status, \<^verbatim>\<open>subscribed_at\<close>, email, name,
  ip address and user agent of the item are as they were.
\<close>

theorem subscribe_active_touches_updated_at:
  assumes "query_fault ev = None" and "write_fault ev = None"
    and "primary_key_unique (table w)"
    and "dynamo_query (table w) (email m) = it # rest"
    and "map_of it ''id'' = Some k"
    and "map_of it ''status'' = Some (Str ''active'')"
  shows "process_subscribe_operation ev m w =
           (Inr (),
            w\<lparr>writes := writes w @ [UpdateItem k [(''updated_at'', Num (utcnow ev))]],
              table := map (\<lambda>x. if x = it then set_attrs [(''updated_at'', Num (utcnow ev))] it else x)
                         (table w)\<rparr>)
         \<and> map_of (set_attrs [(''updated_at'', Num (utcnow ev))] it)
             = (map_of it)(''updated_at'' \<mapsto> Num (utcnow ev))"
proof -
  let ?sets = "[(''updated_at'', Num (utcnow ev))]"
  from assms(6) have st: "current_status it \<noteq> Str ''inactive''"
    by (simp add: current_status_def)
  from assms(4) have mem: "it \<in> set (table w)" by (simp add: query_mem)
  from assms(3) mem assms(5) have "dynamo_update k ?sets (table w)
                         = map (\<lambda>x. if x = it then set_attrs ?sets it else x) (table w)"
    by (rule dynamo_update_unique)
  with assms(1,2,4,5) st have "process_subscribe_operation ev m w =
           (Inr (), w\<lparr>writes := writes w @ [UpdateItem k ?sets],
              table := map (\<lambda>x. if x = it then set_attrs ?sets it else x) (table w)\<rparr>)"
    by (simp add: subscribe_found update_item_ok)
  then show ?thesis by simp
qed

text \<open>An active subscriber subscribes again.\<close>

theorem subscribe_active_touches_updated_at_witness:
  "process_subscribe_operation
     \<lparr>utcnow = 1700000500, uuid4 = ''7c9e6679-7425-40de-944b-e07fc1f90ae7'',
      query_fault = None, write_fault = None\<rparr>
     \<lparr>operation = ''subscribe'', email = ''a@x.com'', name = Some ''A2'',
      ip_address = ''9.9.9.9'', user_agent = ''UA2'', timestamp = 1000\<rparr>
     \<lparr>table =
        [[(''id'', Str ''0f8fad5b-d9cb-469f-a165-70867728950e''), (''email'', Str ''a@x.com''),
          (''name'', Str ''A''), (''status'', Str ''active''), (''subscribed_at'', Num 1700000000),
          (''updated_at'', Num 1700000100), (''ip_address'', Str ''1.1.1.1''), (''user_agent'', Str ''UA'')]],
      writes = []\<rparr>
   = (Inr (),
      \<lparr>table =
        [[(''id'', Str ''0f8fad5b-d9cb-469f-a165-70867728950e''), (''email'', Str ''a@x.com''),
          (''name'', Str ''A''), (''status'', Str ''active''), (''subscribed_at'', Num 1700000000),
          (''updated_at'', Num 1700000500), (''ip_address'', Str ''1.1.1.1''), (''user_agent'', Str ''UA'')]],
      writes =
        [UpdateItem (Str ''0f8fad5b-d9cb-469f-a165-70867728950e'') [(''updated_at'', Num 1700000500)]]\<rparr>)"
  (is "process_subscribe_operation ?ev ?m \<lparr>table = [?a], writes = []\<rparr> = _")
proof -
  let ?w = "\<lparr>table = [?a], writes = []\<rparr>"
  have h1: "query_fault ?ev = None" and h2: "write_fault ?ev = None"
    by simp_all
  have h3: "primary_key_unique (table ?w)"
    by (simp add: primary_key_unique_def)
  have h4: "dynamo_query (table ?w) (email ?m) = ?a # []"
    by (simp add: dynamo_query_def)
  have h5: "map_of ?a ''id'' = Some (Str ''0f8fad5b-d9cb-469f-a165-70867728950e'')"
    by simp
  have h6: "map_of ?a ''status'' = Some (Str ''active'')"
    by simp
  from subscribe_active_touches_updated_at [OF h1 h2 h3 h4 h5 h6] show ?thesis
    by (simp add: set_attrs_def)
qed

lemma subscribe_active_step:
  assumes "query_fault ev = None" and "write_fault ev = None"
    and "dynamo_query (table w) (email m) = [it]"
    and "map_of it ''id'' = Some k"
    and "map_of it ''status'' = Some (Str ''active'')"
  shows "\<exists>w' it'. process_subscribe_operation ev m w = (Inr (), w')
           \<and> dynamo_query (table w') (email m) = [it']
           \<and> map_of it' = (map_of it)(''updated_at'' \<mapsto> Num (utcnow ev))"
proof -
  let ?sets = "[(''updated_at'', Num (utcnow ev))]"
  from assms(5) have st: "current_status it \<noteq> Str ''inactive''"
    by (simp add: current_status_def)
  from assms(3) have "it \<in> set (table w)" by (simp add: query_mem)
  with assms(4) have key: "Some k \<in> set (map (\<lambda>it. map_of it ''id'') (table w))"
    by force
  have "dynamo_query (dynamo_update k ?sets (table w)) (email m)
          = map (\<lambda>x. if map_of x ''id'' = Some k then set_attrs ?sets x else x)
              (dynamo_query (table w) (email m))"
    using key by (rule dynamo_query_update) simp
  with assms(3,4) have q: "dynamo_query (dynamo_update k ?sets (table w)) (email m) = [set_attrs ?sets it]"
    by simp
  from assms(1,2,3,4) st have "process_subscribe_operation ev m w =
      (Inr (), w\<lparr>writes := writes w @ [UpdateItem k ?sets], table := dynamo_update k ?sets (table w)\<rparr>)"
    by (simp add: subscribe_found update_item_ok)
  with q show ?thesis by simp
qed

lemma replay_active:
  assumes "\<forall>j. i \<le> j \<and> j < i + n \<longrightarrow> query_fault (envs j) = None \<and> write_fault (envs j) = None"
    and "dynamo_query (table w) (email m) = [it]"
    and "map_of it ''id'' = Some k"
    and "map_of it ''status'' = Some (Str ''active'')"
  shows "\<exists>w' it'. replay_subscribe envs i m n w = (Inr (), w')
           \<and> dynamo_query (table w') (email m) = [it']
           \<and> map_of it' ''status'' = Some (Str ''active'')
           \<and> map_of it' ''subscribed_at'' = map_of it ''subscribed_at''
           \<and> map_of it' ''updated_at''
                = (if n = 0 then map_of it ''updated_at'' else Some (Num (utcnow (envs (i + n - 1)))))"
  using assms
proof (induction n arbitrary: i w it)
  case 0
  then show ?case by simp
next
  case (Suc n)
  from Suc.prems(1) have f: "query_fault (envs i) = None" "write_fault (envs i) = None"
    by simp_all
  from subscribe_active_step [OF f Suc.prems(2,3,4)]
  obtain w1 it1 where s: "process_subscribe_operation (envs i) m w = (Inr (), w1)"
    and q1: "dynamo_query (table w1) (email m) = [it1]"
    and m1: "map_of it1 = (map_of it)(''updated_at'' \<mapsto> Num (utcnow (envs i)))"
    by blast
  from Suc.prems(1)
  have rest: "\<forall>j. Suc i \<le> j \<and> j < Suc i + n \<longrightarrow> query_fault (envs j) = None \<and> write_fault (envs j) = None"
    by simp
  from m1 Suc.prems(3,4) have k1: "map_of it1 ''id'' = Some k" and a1: "map_of it1 ''status'' = Some (Str ''active'')"
    by simp_all
  from Suc.IH [OF rest q1 k1 a1]
  obtain w' it' where r: "replay_subscribe envs (Suc i) m n w1 = (Inr (), w')"
    and q: "dynamo_query (table w') (email m) = [it']"
    and a: "map_of it' ''status'' = Some (Str ''active'')"
    and sa: "map_of it' ''subscribed_at'' = map_of it1 ''subscribed_at''"
    and ua: "map_of it' ''updated_at''
                = (if n = 0 then map_of it1 ''updated_at'' else Some (Num (utcnow (envs (Suc i + n - 1)))))"
    by blast
  from s r have "replay_subscribe envs i m (Suc n) w = (Inr (), w')"
    by simp
  moreover from sa m1 have "map_of it' ''subscribed_at'' = map_of it ''subscribed_at''"
    by simp
  moreover from ua m1 have "map_of it' ''updated_at'' = Some (Num (utcnow (envs (i + Suc n - 1))))"
    by simp
  ultimately show ?case using q a by simp
qed

text \<open>
  Claim C2. For an email on no item of the table and \<open>N \<ge> 1\<close>, delivering the same
  subscribe message \<open>N\<close> times in a row, with no failure of the table, leaves exactly
  one item with that email: its status is \<^verbatim>\<open>active\<close>, its \<^verbatim>\<open>subscribed_at\<close> is
  the clock's reading in the first delivery and its \<^verbatim>\<open>updated_at\<close> the clock's
  reading in the last.
\<close>

theorem subscribe_replay_idempotent:
  assumes "dynamo_query (table w) (email m) = []"
    and "1 \<le> N"
    and "\<forall>j<N. query_fault (envs j) = None \<and> write_fault (envs j) = None"
  shows "\<exists>w' it. replay_subscribe envs 0 m N w = (Inr (), w')
           \<and> dynamo_query (table w') (email m) = [it]
           \<and> map_of it ''status'' = Some (Str ''active'')
           \<and> map_of it ''subscribed_at'' = Some (Num (utcnow (envs 0)))
           \<and> map_of it ''updated_at'' = Some (Num (utcnow (envs (N - 1))))"
proof -
  from assms(2) obtain n where N: "N = Suc n"
    by (cases N) simp_all
  let ?new = "new_subscriber (envs 0) m"
  let ?w1 = "w\<lparr>writes := writes w @ [PutItem ?new], table := dynamo_put ?new (table w)\<rparr>"
  from assms(3) N have f0: "query_fault (envs 0) = None" "write_fault (envs 0) = None"
    by simp_all
  with assms(1) have s: "process_subscribe_operation (envs 0) m w = (Inr (), ?w1)"
    by (simp add: subscribe_absent put_item_ok)
  have e: "map_of ?new ''email'' = Some (Str (email m))"
    by (simp add: new_subscriber_def)
  from dynamo_query_put_absent [OF assms(1) e]
  have q1: "dynamo_query (table ?w1) (email m) = [?new]"
    by simp
  have k1: "map_of ?new ''id'' = Some (Str (uuid4 (envs 0)))"
    and a1: "map_of ?new ''status'' = Some (Str ''active'')"
    by (simp_all add: new_subscriber_def)
  from assms(3) N
  have rest: "\<forall>j. Suc 0 \<le> j \<and> j < Suc 0 + n \<longrightarrow> query_fault (envs j) = None \<and> write_fault (envs j) = None"
    by simp
  from replay_active [OF rest q1 k1 a1]
  obtain w' it' where r: "replay_subscribe envs (Suc 0) m n ?w1 = (Inr (), w')"
    and q: "dynamo_query (table w') (email m) = [it']"
    and a: "map_of it' ''status'' = Some (Str ''active'')"
    and sa: "map_of it' ''subscribed_at'' = map_of ?new ''subscribed_at''"
    and ua: "map_of it' ''updated_at''
                = (if n = 0 then map_of ?new ''updated_at'' else Some (Num (utcnow (envs (Suc 0 + n - 1)))))"
    by blast
  from s r N have "replay_subscribe envs 0 m N w = (Inr (), w')"
    by simp
  moreover from sa have "map_of it' ''subscribed_at'' = Some (Num (utcnow (envs 0)))"
    by (simp add: new_subscriber_def)
  moreover from ua N have "map_of it' ''updated_at'' = Some (Num (utcnow (envs (N - 1))))"
    by (simp add: new_subscriber_def)
  ultimately show ?thesis using q a by blast
qed

text \<open>Three deliveries on an empty table, at the clock readings 1700000000, 1700000001 and 1700000002.\<close>

theorem subscribe_replay_idempotent_witness:
  "\<exists>w' it.
     replay_subscribe sample_envs 0
       \<lparr>operation = ''subscribe'', email = ''a@x.com'', name = Some ''A'',
        ip_address = ''1.1.1.1'', user_agent = ''UA'', timestamp = 1000\<rparr>
       3 \<lparr>table = [], writes = []\<rparr> = (Inr (), w')
     \<and> dynamo_query (table w') ''a@x.com'' = [it]
     \<and> map_of it ''status'' = Some (Str ''active'')
     \<and> map_of it ''subscribed_at'' = Some (Num 1700000000)
     \<and> map_of it ''updated_at'' = Some (Num 1700000002)"
proof -
  let ?m = "\<lparr>operation = ''subscribe'', email = ''a@x.com'', name = Some ''A'',
        ip_address = ''1.1.1.1'', user_agent = ''UA'', timestamp = 1000\<rparr>"
  let ?w = "\<lparr>table = [], writes = []\<rparr>"
  have h1: "dynamo_query (table ?w) (email ?m) = []"
    by (simp add: dynamo_query_def)
  have h2: "(1::nat) \<le> 3"
    by simp
  have h3: "\<forall>j<3. query_fault (sample_envs j) = None \<and> write_fault (sample_envs j) = None"
    by (simp add: sample_envs_def)
  have u: "utcnow (sample_envs 0) = 1700000000" "utcnow (sample_envs 2) = 1700000002"
    by (simp_all add: sample_envs_def)
  from subscribe_replay_idempotent [OF h1 h2 h3] show ?thesis
    by (simp add: u)
qed

subsection \<open>Unsubscribe\<close>

text \<open>
  Claim C1, as the code has it. An unsubscribe message whose email is on no item of the
  table makes no write call and leaves the state unchanged: it returns normally when the
  query succeeds, and raises the query's exception otherwise.
\<close>

theorem unsubscribe_absent_no_write:
  assumes "dynamo_query (table w) (email m) = []"
  shows "process_unsubscribe_operation ev m w =
           (case query_fault ev of None \<Rightarrow> (Inr (), w) | Some msg \<Rightarrow> (Inl (Exception msg), w))"
  using assms
  by (simp add: process_unsubscribe_operation_def query_subscriber_by_email_def split: option.splits)

text \<open>Unsubscribing an email that the table does not have.\<close>

theorem unsubscribe_absent_no_write_witness:
  "process_unsubscribe_operation
     \<lparr>utcnow = 1700000500, uuid4 = ''7c9e6679-7425-40de-944b-e07fc1f90ae7'',
      query_fault = None, write_fault = None\<rparr>
     \<lparr>operation = ''unsubscribe'', email = ''a@x.com'', name = None,
      ip_address = ''1.1.1.1'', user_agent = ''UA'', timestamp = 1000\<rparr>
     \<lparr>table =
        [[(''id'', Str ''16fd2706-8baf-433b-82eb-8c7fada847da''), (''email'', Str ''b@x.com''),
          (''name'', Str ''B''), (''status'', Str ''active''), (''subscribed_at'', Num 1700000002),
          (''updated_at'', Num 1700000002), (''ip_address'', Str ''2.2.2.2''), (''user_agent'', Str ''UB'')]],
      writes = []\<rparr>
   = (Inr (),
      \<lparr>table =
        [[(''id'', Str ''16fd2706-8baf-433b-82eb-8c7fada847da''), (''email'', Str ''b@x.com''),
          (''name'', Str ''B''), (''status'', Str ''active''), (''subscribed_at'', Num 1700000002),
          (''updated_at'', Num 1700000002), (''ip_address'', Str ''2.2.2.2''), (''user_agent'', Str ''UB'')]],
      writes = []\<rparr>)"
  (is "process_unsubscribe_operation ?ev ?m ?w = _")
proof -
  have "dynamo_query (table ?w) (email ?m) = []"
    by (simp add: dynamo_query_def)
  from unsubscribe_absent_no_write [OF this, of ?ev] show ?thesis
    by simp
qed

text \<open>
  An unsubscribe message whose email resolves to an item that is already inactive is not
  skipped: the found item is updated whatever its status, so one \<^verbatim>\<open>update_item\<close>
  call is made and \<^verbatim>\<open>updated_at\<close> changes.
\<close>

theorem unsubscribe_inactive_writes_counterexample:
  "dynamo_query
     [[(''id'', Str ''0f8fad5b-d9cb-469f-a165-70867728950e''), (''email'', Str ''a@x.com''),
       (''name'', Str ''A''), (''status'', Str ''inactive''), (''subscribed_at'', Num 1700000000),
       (''updated_at'', Num 1700000100), (''ip_address'', Str ''1.1.1.1''), (''user_agent'', Str ''UA'')]]
     ''a@x.com''
   = [[(''id'', Str ''0f8fad5b-d9cb-469f-a165-70867728950e''), (''email'', Str ''a@x.com''),
       (''name'', Str ''A''), (''status'', Str ''inactive''), (''subscribed_at'', Num 1700000000),
       (''updated_at'', Num 1700000100), (''ip_address'', Str ''1.1.1.1''), (''user_agent'', Str ''UA'')]]
   \<and> process_unsubscribe_operation
     \<lparr>utcnow = 1700000500, uuid4 = ''7c9e6679-7425-40de-944b-e07fc1f90ae7'',
      query_fault = None, write_fault = None\<rparr>
     \<lparr>operation = ''unsubscribe'', email = ''a@x.com'', name = None,
      ip_address = ''1.1.1.1'', user_agent = ''UA'', timestamp = 1000\<rparr>
     \<lparr>table =
        [[(''id'', Str ''0f8fad5b-d9cb-469f-a165-70867728950e''), (''email'', Str ''a@x.com''),
          (''name'', Str ''A''), (''status'', Str ''inactive''), (''subscribed_at'', Num 1700000000),
          (''updated_at'', Num 1700000100), (''ip_address'', Str ''1.1.1.1''), (''user_agent'', Str ''UA'')]],
      writes = []\<rparr>
   = (Inr (),
      \<lparr>table =
        [[(''id'', Str ''0f8fad5b-d9cb-469f-a165-70867728950e''), (''email'', Str ''a@x.com''),
          (''name'', Str ''A''), (''status'', Str ''inactive''), (''subscribed_at'', Num 1700000000),
          (''updated_at'', Num 1700000500), (''ip_address'', Str ''1.1.1.1''), (''user_agent'', Str ''UA'')]],
      writes =
        [UpdateItem (Str ''0f8fad5b-d9cb-469f-a165-70867728950e'')
           [(''status'', Str ''inactive''), (''updated_at'', Num 1700000500)]]\<rparr>)"
  by (simp add: eval_defs)

subsection \<open>Both operations\<close>

text \<open>
  Claim C8. Neither operation reads the message's \<^verbatim>\<open>timestamp\<close>: two runs on the
  same message but for the timestamp, with the same clock reading and the same state,
  return the same result and leave the same state (table and write calls). Every time
  written is the clock's reading: for an email on no item, subscribe puts an item whose
  \<^verbatim>\<open>subscribed_at\<close> and \<^verbatim>\<open>updated_at\<close> are both the reading, and unsubscribe
  writes nothing; for a found item, subscribe and unsubscribe each make one update whose
  \<^verbatim>\<open>updated_at\<close> is the reading; when the query fails or the found item has no id,
  nothing is written. The two write calls log their arguments and, unless the write
  fails, apply them to the table as given.
\<close>

theorem timestamps_independent_of_producer:
  "process_subscribe_operation ev (m\<lparr>timestamp := t\<rparr>) w
     = process_subscribe_operation ev (m\<lparr>timestamp := t'\<rparr>) w
   \<and> process_unsubscribe_operation ev (m\<lparr>timestamp := t\<rparr>) w
     = process_unsubscribe_operation ev (m\<lparr>timestamp := t'\<rparr>) w
   \<and> (query_fault ev = None \<and> dynamo_query (table w) (email m) = []
        \<longrightarrow> process_subscribe_operation ev m w =
              put_item ev
                [(''id'', Str (uuid4 ev)), (''email'', Str (email m)),
                 (''name'', (case name m of None \<Rightarrow> Null | Some n \<Rightarrow> Str n)),
                 (''status'', Str ''active''),
                 (''subscribed_at'', Num (utcnow ev)), (''updated_at'', Num (utcnow ev)),
                 (''ip_address'', Str (ip_address m)), (''user_agent'', Str (user_agent m))] w
          \<and> process_unsubscribe_operation ev m w = (Inr (), w))
   \<and> (\<forall>it rest k.
        query_fault ev = None \<and> dynamo_query (table w) (email m) = it # rest \<and> map_of it ''id'' = Some k
        \<longrightarrow> process_subscribe_operation ev m w =
              update_item ev k
                (if current_status it = Str ''inactive''
                 then [(''status'', Str ''active''), (''updated_at'', Num (utcnow ev))]
                 else [(''updated_at'', Num (utcnow ev))]) w
          \<and> process_unsubscribe_operation ev m w =
              update_item ev k [(''status'', Str ''inactive''), (''updated_at'', Num (utcnow ev))] w)
   \<and> (\<forall>msg.
        query_fault ev = Some msg
        \<longrightarrow> process_subscribe_operation ev m w = (Inl (Exception msg), w)
          \<and> process_unsubscribe_operation ev m w = (Inl (Exception msg), w))
   \<and> (\<forall>it rest.
        query_fault ev = None \<and> dynamo_query (table w) (email m) = it # rest \<and> map_of it ''id'' = None
        \<longrightarrow> snd (process_subscribe_operation ev m w) = w
          \<and> snd (process_unsubscribe_operation ev m w) = w)
   \<and> (\<forall>k sets.
        update_item ev k sets w =
          (case write_fault ev of
             None \<Rightarrow> (Inr (), w\<lparr>writes := writes w @ [UpdateItem k sets],
                                 table := dynamo_update k sets (table w)\<rparr>)
           | Some msg \<Rightarrow> (Inl (Exception msg), w\<lparr>writes := writes w @ [UpdateItem k sets]\<rparr>)))
   \<and> (\<forall>new.
        put_item ev new w =
          (case write_fault ev of
             None \<Rightarrow> (Inr (), w\<lparr>writes := writes w @ [PutItem new],
                                 table := dynamo_put new (table w)\<rparr>)
           | Some msg \<Rightarrow> (Inl (Exception msg), w\<lparr>writes := writes w @ [PutItem new]\<rparr>)))"
  (is "?sub \<and> ?unsub \<and> ?absent \<and> ?found \<and> ?qf \<and> ?noid \<and> ?upd \<and> ?put")
proof -
  have "?sub" "?unsub"
    by (simp_all add: subscribe_ignores_timestamp unsubscribe_ignores_timestamp)
  moreover have "?absent"
  proof (intro impI conjI)
    assume a: "query_fault ev = None \<and> dynamo_query (table w) (email m) = []"
    then have "process_subscribe_operation ev m w = put_item ev (new_subscriber ev m) w"
      by (simp add: subscribe_absent)
    then show "process_subscribe_operation ev m w =
              put_item ev
                [(''id'', Str (uuid4 ev)), (''email'', Str (email m)),
                 (''name'', (case name m of None \<Rightarrow> Null | Some n \<Rightarrow> Str n)),
                 (''status'', Str ''active''),
                 (''subscribed_at'', Num (utcnow ev)), (''updated_at'', Num (utcnow ev)),
                 (''ip_address'', Str (ip_address m)), (''user_agent'', Str (user_agent m))] w"
      by (simp add: new_subscriber_def)
    from a show "process_unsubscribe_operation ev m w = (Inr (), w)"
      by (simp add: process_unsubscribe_operation_def query_subscriber_by_email_def)
  qed
  moreover have "?found"
    by (intro allI impI conjI; elim conjE) (simp_all add: subscribe_found unsubscribe_found)
  moreover have "?qf"
    by (simp add: query_fault_raises)
  moreover have "?noid"
  proof (intro allI impI, elim conjE)
    fix it rest
    assume q: "query_fault ev = None" "dynamo_query (table w) (email m) = it # rest"
      and n: "map_of it ''id'' = None"
    from q(2) have "map_of it ''email'' = Some (Str (email m))"
      by (simp add: query_mem)
    then have "it \<noteq> []" by auto
    with q n show "snd (process_subscribe_operation ev m w) = w
          \<and> snd (process_unsubscribe_operation ev m w) = w"
      by (simp add: process_subscribe_operation_def process_unsubscribe_operation_def
            query_subscriber_by_email_def)
  qed
  moreover have "?upd"
    by (simp add: update_item_def split: option.splits)
  moreover have "?put"
    by (simp add: put_item_def split: option.splits)
  ultimately show ?thesis by blast
qed

text \<open>
  The same subscription with the producer timestamps 1000 and 1999999999, what it
  writes at the clock reading 1700000000, and an unsubscription at the reading 1700000500.
\<close>

theorem timestamps_independent_of_producer_witness:
  "process_subscribe_operation
     \<lparr>utcnow = 1700000000, uuid4 = ''0f8fad5b-d9cb-469f-a165-70867728950e'',
      query_fault = None, write_fault = None\<rparr>
     \<lparr>operation = ''subscribe'', email = ''a@x.com'', name = Some ''A'',
      ip_address = ''1.1.1.1'', user_agent = ''UA'', timestamp = 1000\<rparr>
     \<lparr>table = [], writes = []\<rparr>
   = process_subscribe_operation
     \<lparr>utcnow = 1700000000, uuid4 = ''0f8fad5b-d9cb-469f-a165-70867728950e'',
      query_fault = None, write_fault = None\<rparr>
     \<lparr>operation = ''subscribe'', email = ''a@x.com'', name = Some ''A'',
      ip_address = ''1.1.1.1'', user_agent = ''UA'', timestamp = 1999999999\<rparr>
     \<lparr>table = [], writes = []\<rparr>
   \<and> process_subscribe_operation
     \<lparr>utcnow = 1700000000, uuid4 = ''0f8fad5b-d9cb-469f-a165-70867728950e'',
      query_fault = None, write_fault = None\<rparr>
     \<lparr>operation = ''subscribe'', email = ''a@x.com'', name = Some ''A'',
      ip_address = ''1.1.1.1'', user_agent = ''UA'', timestamp = 1000\<rparr>
     \<lparr>table = [], writes = []\<rparr>
   = (Inr (),
      \<lparr>table =
         [[(''id'', Str ''0f8fad5b-d9cb-469f-a165-70867728950e''), (''email'', Str ''a@x.com''),
           (''name'', Str ''A''), (''status'', Str ''active''), (''subscribed_at'', Num 1700000000),
           (''updated_at'', Num 1700000000), (''ip_address'', Str ''1.1.1.1''), (''user_agent'', Str ''UA'')]],
       writes =
         [PutItem
           [(''id'', Str ''0f8fad5b-d9cb-469f-a165-70867728950e''), (''email'', Str ''a@x.com''),
            (''name'', Str ''A''), (''status'', Str ''active''), (''subscribed_at'', Num 1700000000),
            (''updated_at'', Num 1700000000), (''ip_address'', Str ''1.1.1.1''), (''user_agent'', Str ''UA'')]]\<rparr>)
   \<and> process_unsubscribe_operation
     \<lparr>utcnow = 1700000500, uuid4 = ''7c9e6679-7425-40de-944b-e07fc1f90ae7'',
      query_fault = None, write_fault = None\<rparr>
     \<lparr>operation = ''unsubscribe'', email = ''a@x.com'', name = None,
      ip_address = ''1.1.1.1'', user_agent = ''UA'', timestamp = 1000\<rparr>
     \<lparr>table =
        [[(''id'', Str ''0f8fad5b-d9cb-469f-a165-70867728950e''), (''email'', Str ''a@x.com''),
          (''name'', Str ''A''), (''status'', Str ''active''), (''subscribed_at'', Num 1700000000),
          (''updated_at'', Num 1700000000), (''ip_address'', Str ''1.1.1.1''), (''user_agent'', Str ''UA'')]],
      writes = []\<rparr>
   = (Inr (),
      \<lparr>table =
        [[(''id'', Str ''0f8fad5b-d9cb-469f-a165-70867728950e''), (''email'', Str ''a@x.com''),
          (''name'', Str ''A''), (''status'', Str ''inactive''), (''subscribed_at'', Num 1700000000),
          (''updated_at'', Num 1700000500), (''ip_address'', Str ''1.1.1.1''), (''user_agent'', Str ''UA'')]],
      writes =
        [UpdateItem (Str ''0f8fad5b-d9cb-469f-a165-70867728950e'')
           [(''status'', Str ''inactive''), (''updated_at'', Num 1700000500)]]\<rparr>)"
  (is "process_subscribe_operation ?ev ?m ?w = process_subscribe_operation _ ?m' _
       \<and> process_subscribe_operation _ _ _ = _
       \<and> process_unsubscribe_operation ?ev2 ?m2 \<lparr>table = [?a], writes = []\<rparr> = _")
proof -
  let ?w2 = "\<lparr>table = [?a], writes = []\<rparr>"
  note sub = timestamps_independent_of_producer [where ev = ?ev and m = ?m and w = ?w and t = 1000 and t' = 1999999999]
  note uns = timestamps_independent_of_producer [where ev = ?ev2 and m = ?m2 and w = ?w2]
  have h1: "query_fault ?ev = None \<and> dynamo_query (table ?w) (email ?m) = []"
    by (simp add: dynamo_query_def)
  have h2: "query_fault ?ev2 = None \<and> dynamo_query (table ?w2) (email ?m2) = ?a # []
              \<and> map_of ?a ''id'' = Some (Str ''0f8fad5b-d9cb-469f-a165-70867728950e'')"
    by (simp add: dynamo_query_def)
  from sub [THEN conjunct1]
  have "process_subscribe_operation ?ev ?m ?w = process_subscribe_operation ?ev ?m' ?w"
    by simp
  moreover
  from sub [THEN conjunct2, THEN conjunct2, THEN conjunct1, rule_format, OF h1, THEN conjunct1]
    sub [THEN conjunct2, THEN conjunct2, THEN conjunct2, THEN conjunct2, THEN conjunct2, THEN conjunct2,
         THEN conjunct2]
  have "process_subscribe_operation ?ev ?m ?w =
      (Inr (), \<lparr>table = dynamo_put (new_subscriber ?ev ?m) [], writes = [PutItem (new_subscriber ?ev ?m)]\<rparr>)"
    by (simp add: new_subscriber_def)
  moreover
  from uns [THEN conjunct2, THEN conjunct2, THEN conjunct2, THEN conjunct1, rule_format, OF h2, THEN conjunct2]
    uns [THEN conjunct2, THEN conjunct2, THEN conjunct2, THEN conjunct2, THEN conjunct2, THEN conjunct2,
         THEN conjunct1]
  have "process_unsubscribe_operation ?ev2 ?m2 ?w2 =
      (Inr (), \<lparr>table = dynamo_update (Str ''0f8fad5b-d9cb-469f-a165-70867728950e'')
                           [(''status'', Str ''inactive''), (''updated_at'', Num 1700000500)] [?a],
                writes = [UpdateItem (Str ''0f8fad5b-d9cb-469f-a165-70867728950e'')
                           [(''status'', Str ''inactive''), (''updated_at'', Num 1700000500)]]\<rparr>)"
    by simp
  ultimately show ?thesis
    by (simp add: dynamo_put_def dynamo_update_def new_subscriber_def set_attrs_def)
qed

text \<open>
  Claim C9. When the email index returns more than one item for the email, the lookup
  returns the first, without an error; subscribe and unsubscribe each make their one
  \<^verbatim>\<open>update_item\<close> call on the first item's id and change that item only: the other
  items of the result differ from it and stay as they were. Nothing raises and nothing
  reports the duplicate.
\<close>

theorem duplicate_email_first_match:
  assumes "query_fault ev = None" and "write_fault ev = None"
    and "primary_key_unique (table w)"
    and "dynamo_query (table w) (email m) = it # it2 # rest"
    and "map_of it ''id'' = Some k"
  shows "query_subscriber_by_email ev (email m) w = Inr (Some it)
    \<and> it \<notin> set (it2 # rest)
    \<and> process_subscribe_operation ev m w =
         (Inr (),
          w\<lparr>writes := writes w @
               [UpdateItem k
                  (if current_status it = Str ''inactive''
                   then [(''status'', Str ''active''), (''updated_at'', Num (utcnow ev))]
                   else [(''updated_at'', Num (utcnow ev))])],
            table := map (\<lambda>x. if x = it
                              then set_attrs
                                     (if current_status it = Str ''inactive''
                                      then [(''status'', Str ''active''), (''updated_at'', Num (utcnow ev))]
                                      else [(''updated_at'', Num (utcnow ev))]) it
                              else x) (table w)\<rparr>)
    \<and> process_unsubscribe_operation ev m w =
         (Inr (),
          w\<lparr>writes := writes w @
               [UpdateItem k [(''status'', Str ''inactive''), (''updated_at'', Num (utcnow ev))]],
            table := map (\<lambda>x. if x = it
                              then set_attrs [(''status'', Str ''inactive''), (''updated_at'', Num (utcnow ev))] it
                              else x) (table w)\<rparr>)"
proof (intro conjI)
  from assms(1,4) show "query_subscriber_by_email ev (email m) w = Inr (Some it)"
    by (simp add: query_subscriber_by_email_def)
  from assms(3,4) show "it \<notin> set (it2 # rest)"
    by (rule query_distinct)
  from assms(4) have mem: "it \<in> set (table w)" by (simp add: query_mem)
  note upd = dynamo_update_unique [OF assms(3) mem assms(5)]
  from assms(1,2,4,5) show "process_subscribe_operation ev m w =
         (Inr (),
          w\<lparr>writes := writes w @
               [UpdateItem k
                  (if current_status it = Str ''inactive''
                   then [(''status'', Str ''active''), (''updated_at'', Num (utcnow ev))]
                   else [(''updated_at'', Num (utcnow ev))])],
            table := map (\<lambda>x. if x = it
                              then set_attrs
                                     (if current_status it = Str ''inactive''
                                      then [(''status'', Str ''active''), (''updated_at'', Num (utcnow ev))]
                                      else [(''updated_at'', Num (utcnow ev))]) it
                              else x) (table w)\<rparr>)"
    by (simp only: subscribe_found update_item_ok upd)
  from assms(1,2,4,5) show "process_unsubscribe_operation ev m w =
         (Inr (),
          w\<lparr>writes := writes w @
               [UpdateItem k [(''status'', Str ''inactive''), (''updated_at'', Num (utcnow ev))]],
            table := map (\<lambda>x. if x = it
                              then set_attrs [(''status'', Str ''inactive''), (''updated_at'', Num (utcnow ev))] it
                              else x) (table w)\<rparr>)"
    by (simp only: unsubscribe_found update_item_ok upd)
qed

text \<open>Two items with the same email and different ids; the second is left as it was.\<close>

theorem duplicate_email_first_match_witness:
  "query_subscriber_by_email
     \<lparr>utcnow = 1700000500, uuid4 = ''7c9e6679-7425-40de-944b-e07fc1f90ae7'',
      query_fault = None, write_fault = None\<rparr>
     ''a@x.com''
     \<lparr>table =
        [[(''id'', Str ''0f8fad5b-d9cb-469f-a165-70867728950e''), (''email'', Str ''a@x.com''),
          (''name'', Str ''A''), (''status'', Str ''active''), (''subscribed_at'', Num 1700000000),
          (''updated_at'', Num 1700000100), (''ip_address'', Str ''1.1.1.1''), (''user_agent'', Str ''UA'')],
         [(''id'', Str ''16fd2706-8baf-433b-82eb-8c7fada847da''), (''email'', Str ''a@x.com''),
          (''name'', Str ''A again''), (''status'', Str ''inactive''), (''subscribed_at'', Num 1700000002),
          (''updated_at'', Num 1700000002), (''ip_address'', Str ''2.2.2.2''), (''user_agent'', Str ''UB'')]],
      writes = []\<rparr>
   = Inr (Some
        [(''id'', Str ''0f8fad5b-d9cb-469f-a165-70867728950e''), (''email'', Str ''a@x.com''),
          (''name'', Str ''A''), (''status'', Str ''active''), (''subscribed_at'', Num 1700000000),
          (''updated_at'', Num 1700000100), (''ip_address'', Str ''1.1.1.1''), (''user_agent'', Str ''UA'')])
   \<and> process_unsubscribe_operation
     \<lparr>utcnow = 1700000500, uuid4 = ''7c9e6679-7425-40de-944b-e07fc1f90ae7'',
      query_fault = None, write_fault = None\<rparr>
     \<lparr>operation = ''unsubscribe'', email = ''a@x.com'', name = None,
      ip_address = ''1.1.1.1'', user_agent = ''UA'', timestamp = 1000\<rparr>
     \<lparr>table =
        [[(''id'', Str ''0f8fad5b-d9cb-469f-a165-70867728950e''), (''email'', Str ''a@x.com''),
          (''name'', Str ''A''), (''status'', Str ''active''), (''subscribed_at'', Num 1700000000),
          (''updated_at'', Num 1700000100), (''ip_address'', Str ''1.1.1.1''), (''user_agent'', Str ''UA'')],
         [(''id'', Str ''16fd2706-8baf-433b-82eb-8c7fada847da''), (''email'', Str ''a@x.com''),
          (''name'', Str ''A again''), (''status'', Str ''inactive''), (''subscribed_at'', Num 1700000002),
          (''updated_at'', Num 1700000002), (''ip_address'', Str ''2.2.2.2''), (''user_agent'', Str ''UB'')]],
      writes = []\<rparr>
   = (Inr (),
      \<lparr>table =
        [[(''id'', Str ''0f8fad5b-d9cb-469f-a165-70867728950e''), (''email'', Str ''a@x.com''),
          (''name'', Str ''A''), (''status'', Str ''inactive''), (''subscribed_at'', Num 1700000000),
          (''updated_at'', Num 1700000500), (''ip_address'', Str ''1.1.1.1''), (''user_agent'', Str ''UA'')],
         [(''id'', Str ''16fd2706-8baf-433b-82eb-8c7fada847da''), (''email'', Str ''a@x.com''),
          (''name'', Str ''A again''), (''status'', Str ''inactive''), (''subscribed_at'', Num 1700000002),
          (''updated_at'', Num 1700000002), (''ip_address'', Str ''2.2.2.2''), (''user_agent'', Str ''UB'')]],
      writes =
        [UpdateItem (Str ''0f8fad5b-d9cb-469f-a165-70867728950e'')
           [(''status'', Str ''inactive''), (''updated_at'', Num 1700000500)]]\<rparr>)"
  (is "query_subscriber_by_email ?ev _ \<lparr>table = [?a, ?b], writes = []\<rparr> = _
       \<and> process_unsubscribe_operation _ ?m _ = _")
proof -
  let ?w = "\<lparr>table = [?a, ?b], writes = []\<rparr>"
  have h1: "query_fault ?ev = None" and h2: "write_fault ?ev = None"
    by simp_all
  have h3: "primary_key_unique (table ?w)"
    by (simp add: primary_key_unique_def)
  have h4: "dynamo_query (table ?w) (email ?m) = ?a # ?b # []"
    by (simp add: dynamo_query_def)
  have h5: "map_of ?a ''id'' = Some (Str ''0f8fad5b-d9cb-469f-a165-70867728950e'')"
    by simp
  from duplicate_email_first_match [OF h1 h2 h3 h4 h5] show ?thesis
    by (simp add: set_attrs_def)
qed

section \<open>Properties of the batch handler\<close>

lemma handle_record_counts:
  "processed_count (fst (handle_record decode ev r cw)) + failed_count (fst (handle_record decode ev r cw))
     = processed_count (fst cw) + failed_count (fst cw) + 1"
  by (simp add: handle_record_def Let_def split: prod.splits sum.splits bool.splits exn.splits)

lemma records_loop_counts:
  "processed_count (fst (records_loop decode envs i rs cw)) + failed_count (fst (records_loop decode envs i rs cw))
     = processed_count (fst cw) + failed_count (fst cw) + int (length rs)"
  by (induction rs arbitrary: i cw) (simp_all add: handle_record_counts)










text \<open>
  Claim C10. The handler returns a response in which the processed count plus the failed
  count is the number of records of the event: every record is counted exactly once.
\<close>

theorem processed_plus_failed_counts_records:
  "\<exists>r w'. lambda_handler decode envs ev w = (Inr r, w')
      \<and> processed r + failed r = int (length (event_records ev))"
  by (simp add: lambda_handler_def Let_def records_loop_counts)



text \<open>
  Claim C7. The response carries the two counts and the list of failures. On a batch of one
  record whose body decodes to a message with the operation \<^verbatim>\<open>delete\<close>, the branch
  of the unknown operation counts the message as failed and leaves the loop iteration
  with \<^verbatim>\<open>continue\<close>: the response has \<open>failed = 1\<close> and an empty
  \<open>failed_messages\<close>, so the failed message has no entry with its receipt handle,
  unlike a message whose processing raised.
\<close>

theorem unknown_operation_counted_not_listed:
  \<open>lambda_handler sample_decode sample_envs
     \<lparr>Records = Some
        [\<lparr>receiptHandle = Some ''h1'',
          body = Some ''{"operation": "delete", "email": "a@x.com", "name": null, "ip_address": "1.1.1.1", "user_agent": "UA", "timestamp": 1000}''\<rparr>]\<rparr>
     \<lparr>table = [], writes = []\<rparr>
   = (Inr \<lparr>statusCode = 200, processed = 0, failed = 1, failed_messages = []\<rparr>,
      \<lparr>table = [], writes = []\<rparr>)\<close>
  by (simp add: lambda_handler_def event_records_def handle_record_def eval_defs)

end
